theory Spec2Isabelle
  imports Complex_Main
begin

section \<open>Data model\<close>

text \<open>
  The engine of \<^verbatim>\<open>dq_engine.py\<close> works on three pandas tables. A transaction table is
  modelled as the list of its rows, each row a record of the seven columns the metric
  functions read. A missing value (NaN, None, NaT) is \<open>None\<close> in an identifier, currency
  or amount column. A timestamp cell is either missing, still the text that the loader
  read, or an instant (nanoseconds since the epoch) once \<^verbatim>\<open>pd.to_datetime\<close> has run:
  \<open>Stamp\<close> without a time zone, \<open>StampTz\<close> with one.
\<close>

datatype ts = NaT | Text string | Stamp int | StampTz int

record txn =
  transaction_id :: "string option"
  customer_id :: "string option"
  merchant_id :: "string option"
  currency_code :: "string option"
  transaction_amount :: "rat option"
  transaction_timestamp :: ts
  settlement_date :: ts

text \<open>
  The customer and merchant tables are read only through their identifier column
  (\<^verbatim>\<open>cust_df["customer_id"]\<close>, \<^verbatim>\<open>merch_df["merchant_id"]\<close>): each is the list of that column.
\<close>

type_synonym id_column = "string option list"

text \<open>The Python exceptions that the modelled code can raise.\<close>

datatype error = TypeError | NameError | KeyError | ValueError | OverflowError

text \<open>
  A score is a float. Binary rounding error is abstracted away: a finite float is an
  exact rational, and the one special value that the code can produce, NaN (from a
  division of zero by zero in numpy arithmetic or the mean of an empty column), is kept.
  Every comparison with NaN is false, as in Python. The abstraction keeps which results
  are NaN and keeps the order of results, every step of the code being monotone in
  doubles as it is in rationals. It does not keep the last digit where the exact value
  lies midway between two hundredths: there the double that the code rounds is a little
  off the midpoint and the code's result can be 0.01 away from the model's.
\<close>

datatype pyfloat = NaN | Fin rat

fun pf_ge :: "pyfloat \<Rightarrow> rat \<Rightarrow> bool" where
  "pf_ge NaN y = False"
| "pf_ge (Fin x) y = (y \<le> x)"

fun pf_lt :: "pyfloat \<Rightarrow> rat \<Rightarrow> bool" where
  "pf_lt NaN y = False"
| "pf_lt (Fin x) y = (x < y)"

fun pf_le :: "pyfloat \<Rightarrow> pyfloat \<Rightarrow> bool" where
  "pf_le (Fin x) (Fin y) = (x \<le> y)"
| "pf_le _ _ = False"

fun pf_add :: "pyfloat \<Rightarrow> pyfloat \<Rightarrow> pyfloat" where
  "pf_add (Fin x) (Fin y) = Fin (x + y)"
| "pf_add _ _ = NaN"

fun pf_map :: "(rat \<Rightarrow> rat) \<Rightarrow> pyfloat \<Rightarrow> pyfloat" where
  "pf_map f NaN = NaN"
| "pf_map f (Fin x) = Fin (f x)"

text \<open>
  \<^verbatim>\<open>round(x, 2)\<close>: the nearest multiple of 0.01, a tie going to the even one (both
  Python's and numpy's rounding are round-half-even); NaN stays NaN.
\<close>

definition round_half_even :: "rat \<Rightarrow> int" where
  "round_half_even x =
     (let f = \<lfloor>x\<rfloor>; d = x - of_int f
      in if d < 1 / 2 then f else if 1 / 2 < d then f + 1 else if even f then f else f + 1)"

definition round2 :: "rat \<Rightarrow> rat" where
  "round2 x = of_int (round_half_even (x * 100)) / 100"

text \<open>
  \<^verbatim>\<open>s.mean()\<close> of a boolean column: the fraction of \<open>True\<close>, NaN for the empty column.
\<close>

definition mean_bool :: "bool list \<Rightarrow> pyfloat" where
  "mean_bool xs =
     (if xs = [] then NaN
      else Fin (of_nat (length (filter id xs)) / of_nat (length xs)))"

text \<open>
  The expression shared by five metrics: \<^verbatim>\<open>round(100 * (1 - m), 2)\<close>.
\<close>

definition score_of :: "pyfloat \<Rightarrow> pyfloat" where
  "score_of m = pf_map (\<lambda>x. round2 (100 * (1 - x))) m"

section \<open>Metric functions\<close>

text \<open>
  \<^verbatim>\<open>completeness_score\<close>: \<^verbatim>\<open>total_cells = df.shape[0] * df.shape[1]\<close>,
  \<^verbatim>\<open>missing_cells = df.isnull().sum().sum()\<close> (a numpy integer), and
  \<^verbatim>\<open>missing_cells / total_cells\<close> in numpy arithmetic, where 0 / 0 is NaN.
\<close>

definition ts_isnull :: "ts \<Rightarrow> bool" where
  "ts_isnull c = (c = NaT)"

definition missing_in_row :: "txn \<Rightarrow> nat" where
  "missing_in_row r =
     length (filter id
       [transaction_id r = None, customer_id r = None, merchant_id r = None,
        currency_code r = None, transaction_amount r = None,
        ts_isnull (transaction_timestamp r), ts_isnull (settlement_date r)])"

definition np_div :: "nat \<Rightarrow> nat \<Rightarrow> pyfloat" where
  "np_div a b = (if b = 0 then NaN else Fin (of_nat a / of_nat b))"

definition completeness_score :: "txn list \<Rightarrow> pyfloat" where
  "completeness_score df =
     (let total_cells = length df * 7;
          missing_cells = sum_list (map missing_in_row df)
      in score_of (np_div missing_cells total_cells))"

text \<open>
  \<^verbatim>\<open>uniqueness_score\<close> is declared with the single parameter \<^verbatim>\<open>df\<close>, and its body reads
  the name \<^verbatim>\<open>id_column\<close>, which is neither a parameter nor a global of the module:
  \<^verbatim>\<open>
  def uniqueness_score(df):
      unique_ratio = df[id_column].nunique() / len(df)
      return round(unique_ratio * 100, 2)
  \<close>
  A call is modelled with the table and the list of the further positional arguments.
  Any further argument makes the call itself fail with TypeError; with none, the body
  fails with NameError when it evaluates \<^verbatim>\<open>id_column\<close>, before anything is computed.
\<close>

definition uniqueness_score :: "txn list \<Rightarrow> string list \<Rightarrow> error + pyfloat" where
  "uniqueness_score df extra_args =
     (if extra_args \<noteq> [] then Inl TypeError else Inl NameError)"

definition VALID_CURRENCIES :: "string list" where
  "VALID_CURRENCIES = [''INR'', ''USD'', ''EUR'']"

text \<open>
  \<^verbatim>\<open>s.isin(values)\<close> on one cell: membership, where a missing cell matches only a
  missing value.
\<close>

definition isin :: "string option \<Rightarrow> string option list \<Rightarrow> bool" where
  "isin c vs = (c \<in> set vs)"

definition validity_score_currency :: "txn list \<Rightarrow> pyfloat" where
  "validity_score_currency df =
     (let invalid = map (\<lambda>r. \<not> isin (currency_code r) (map Some VALID_CURRENCIES)) df
      in score_of (mean_bool invalid))"

definition accuracy_score_amount :: "txn list \<Rightarrow> pyfloat" where
  "accuracy_score_amount df =
     (let invalid_amounts =
            map (\<lambda>r. (case transaction_amount r of None \<Rightarrow> False | Some a \<Rightarrow> a \<le> 0)
                      \<or> transaction_amount r = None) df
      in score_of (mean_bool invalid_amounts))"

text \<open>
  Evaluating a list of fallible results in order: the first failure is the outcome.
\<close>

fun sequence :: "(error + 'a) list \<Rightarrow> error + 'a list" where
  "sequence [] = Inr []"
| "sequence (x # xs) =
     (case x of
        Inl e \<Rightarrow> Inl e
      | Inr v \<Rightarrow> (case sequence xs of Inl e \<Rightarrow> Inl e | Inr vs \<Rightarrow> Inr (v # vs)))"

text \<open>
  \<^verbatim>\<open>pd.to_datetime\<close> is a library function, called on a whole column. What it makes of
  a text is a parameter \<open>parse\<close> of the model, and depends on the column the text stands
  in, since pandas settles on one format for the column: \<open>parse col s\<close> is the reading of
  the text \<open>s\<close> within the column \<open>col\<close>. The text is rejected (pandas raises ValueError,
  the call passing no \<^verbatim>\<open>errors=\<close> argument), or read as missing, or read as an instant
  without or with a time zone. An instant that does not fit the 64-bit nanosecond range
  is rejected as well. A cell that is already missing or an instant is returned as it
  is. The conversion fails as a whole when one cell is rejected, and also when the
  result would hold instants with and without a time zone side by side.
\<close>

datatype parsed = Rejected | Missing | At int | AtTz int

type_synonym parser = "ts list \<Rightarrow> string \<Rightarrow> parsed"

definition in_int64 :: "int \<Rightarrow> bool" where
  "in_int64 n = (- (2 ^ 63) < n \<and> n < 2 ^ 63)"

fun to_datetime_cell :: "(string \<Rightarrow> parsed) \<Rightarrow> ts \<Rightarrow> error + ts" where
  "to_datetime_cell reading NaT = Inr NaT"
| "to_datetime_cell reading (Stamp t) = Inr (Stamp t)"
| "to_datetime_cell reading (StampTz t) = Inr (StampTz t)"
| "to_datetime_cell reading (Text s) =
     (case reading s of
        Rejected \<Rightarrow> Inl ValueError
      | Missing \<Rightarrow> Inr NaT
      | At t \<Rightarrow> if in_int64 t then Inr (Stamp t) else Inl ValueError
      | AtTz t \<Rightarrow> if in_int64 t then Inr (StampTz t) else Inl ValueError)"

fun is_naive :: "ts \<Rightarrow> bool" where
  "is_naive (Stamp t) = True"
| "is_naive _ = False"

fun is_aware :: "ts \<Rightarrow> bool" where
  "is_aware (StampTz t) = True"
| "is_aware _ = False"

definition to_datetime :: "parser \<Rightarrow> ts list \<Rightarrow> error + ts list" where
  "to_datetime parse col =
     (case sequence (map (to_datetime_cell (parse col)) col) of
        Inl e \<Rightarrow> Inl e
      | Inr vs \<Rightarrow>
          if list_ex is_naive vs \<and> list_ex is_aware vs then Inl ValueError else Inr vs)"

text \<open>
  The two column assignments of \<^verbatim>\<open>timeliness_score\<close> write into the table that the
  caller passed: \<^verbatim>\<open>df["transaction_timestamp"] = ...\<close> and \<^verbatim>\<open>df["settlement_date"] = ...\<close>.
\<close>

definition set_transaction_timestamp :: "txn list \<Rightarrow> ts list \<Rightarrow> txn list" where
  "set_transaction_timestamp df col = map2 (\<lambda>r v. r\<lparr>transaction_timestamp := v\<rparr>) df col"

definition set_settlement_date :: "txn list \<Rightarrow> ts list \<Rightarrow> txn list" where
  "set_settlement_date df col = map2 (\<lambda>r v. r\<lparr>settlement_date := v\<rparr>) df col"

text \<open>
  The subtraction \<^verbatim>\<open>df["settlement_date"] - df["transaction_timestamp"]\<close> of two converted
  columns. pandas refuses it with TypeError when one column carries a time zone and the
  other does not; a column with no instant in it carries none. Row by row the difference
  of two instants is a 64-bit count of nanoseconds: a difference that does not fit raises
  OverflowError, the one value that stands for "missing" in that representation is read
  as missing, and with a missing operand the difference is missing.
\<close>

fun instant :: "ts \<Rightarrow> int option" where
  "instant (Stamp t) = Some t"
| "instant (StampTz t) = Some t"
| "instant _ = None"

definition tz_aware_column :: "ts list \<Rightarrow> bool" where
  "tz_aware_column col = list_ex is_aware col"

definition timedelta :: "ts \<Rightarrow> ts \<Rightarrow> error + int option" where
  "timedelta a b =
     (case (instant a, instant b) of
        (Some s, Some t) \<Rightarrow>
          if s - t < - (2 ^ 63) \<or> 2 ^ 63 \<le> s - t then Inl OverflowError
          else if s - t = - (2 ^ 63) then Inr None
          else Inr (Some (s - t))
      | _ \<Rightarrow> Inr None)"

definition subtract_columns :: "ts list \<Rightarrow> ts list \<Rightarrow> error + int option list" where
  "subtract_columns a b =
     (if tz_aware_column a \<noteq> tz_aware_column b then Inl TypeError
      else sequence (map2 timedelta a b))"

text \<open>
  \<^verbatim>\<open>.dt.days\<close> on one difference: the floor of the difference in days, missing when the
  difference is missing.
\<close>

definition ns_per_day :: int where
  "ns_per_day = 86400000000000"

definition days :: "int option \<Rightarrow> int option" where
  "days d = map_option (\<lambda>n. n div ns_per_day) d"

text \<open>\<^verbatim>\<open>delay > max_delay_days\<close> on one row: false on a missing delay.\<close>

definition is_late :: "int \<Rightarrow> int option \<Rightarrow> bool" where
  "is_late max_delay_days d = (case d of None \<Rightarrow> False | Some n \<Rightarrow> max_delay_days < n)"

text \<open>
  \<^verbatim>\<open>timeliness_score\<close> returns its result together with the table as the call leaves it.
  When the second conversion raises, the first assignment has already happened; when
  the subtraction raises, both have.
\<close>

definition timeliness_score :: "parser \<Rightarrow> txn list \<Rightarrow> int \<Rightarrow> (error + pyfloat) \<times> txn list" where
  "timeliness_score parse df max_delay_days =
     (case to_datetime parse (map transaction_timestamp df) of
        Inl e \<Rightarrow> (Inl e, df)
      | Inr tcol \<Rightarrow>
          (let df1 = set_transaction_timestamp df tcol
           in case to_datetime parse (map settlement_date df1) of
                Inl e \<Rightarrow> (Inl e, df1)
              | Inr scol \<Rightarrow>
                  (let df2 = set_settlement_date df1 scol
                   in case subtract_columns (map settlement_date df2)
                             (map transaction_timestamp df2) of
                        Inl e \<Rightarrow> (Inl e, df2)
                      | Inr difference \<Rightarrow>
                          (let delay = map days difference;
                               late = map (is_late max_delay_days) delay
                           in (Inr (score_of (mean_bool late)), df2)))))"

definition consistency_score :: "txn list \<Rightarrow> pyfloat" where
  "consistency_score df =
     (let inconsistent = map (\<lambda>r. currency_code r = Some ''INR'' \<and> merchant_id r = None) df
      in score_of (mean_bool inconsistent))"

definition integrity_score :: "txn list \<Rightarrow> id_column \<Rightarrow> id_column \<Rightarrow> pyfloat" where
  "integrity_score txn_df cust_df merch_df =
     (let invalid_customer = map (\<lambda>r. \<not> isin (customer_id r) cust_df) txn_df;
          invalid_merchant = map (\<lambda>r. \<not> isin (merchant_id r) merch_df) txn_df;
          invalid = map2 (\<or>) invalid_customer invalid_merchant
      in score_of (mean_bool invalid))"

section \<open>Explanation layer\<close>

text \<open>The severity band that \<^verbatim>\<open>explain_dimension\<close> computes first.\<close>

definition severity :: "pyfloat \<Rightarrow> string" where
  "severity score =
     (if pf_ge score 90 then ''low''
      else if pf_ge score 75 then ''medium''
      else ''high'')"

definition explanations_table :: "(string \<times> (string \<times> string) list) list" where
  "explanations_table =
    [(''Completeness'',
       [(''low'', ''Most required fields are populated, indicating strong data capture processes.''),
        (''medium'', ''Some critical fields contain missing values, which may affect downstream processing.''),
        (''high'', ''A significant number of required fields are missing, impacting reconciliation and compliance.'')]),
     (''Accuracy'',
       [(''low'', ''Transaction values are largely accurate and within expected ranges.''),
        (''medium'', ''Some transaction values appear unrealistic or invalid, affecting reporting reliability.''),
        (''high'', ''Many transaction values are incorrect or invalid, posing financial and operational risks.'')]),
     (''Validity'',
       [(''low'', ''Most fields conform to expected formats and domain rules.''),
        (''medium'', ''Several fields violate format or domain constraints, reducing system reliability.''),
        (''high'', ''Widespread format and domain violations prevent reliable data processing.'')]),
     (''Uniqueness'',
       [(''low'', ''Records are mostly unique, minimizing duplication risks.''),
        (''medium'', ''Some duplicate records were detected, which may lead to reconciliation errors.''),
        (''high'', ''High duplication levels detected, risking double counting and reporting inaccuracies.'')]),
     (''Timeliness'',
       [(''low'', ''Transactions are settled within acceptable timeframes.''),
        (''medium'', ''Settlement delays are observed, impacting real-time visibility.''),
        (''high'', ''Significant delays detected, reducing operational effectiveness and fraud detection capability.'')]),
     (''Consistency'',
       [(''low'', ''Related fields show strong alignment across records.''),
        (''medium'', ''Some inconsistencies exist between related fields, causing reporting mismatches.''),
        (''high'', ''Frequent inconsistencies detected, reducing trust in analytical outputs.'')]),
     (''Integrity'',
       [(''low'', ''Relationships across datasets are well maintained.''),
        (''medium'', ''Some records reference missing or invalid entities.''),
        (''high'', ''Broken relationships detected, impacting end-to-end data reliability.'')])]"

text \<open>A dictionary subscript \<^verbatim>\<open>d[k]\<close>: KeyError on a key that is not there.\<close>

definition subscript :: "(string \<times> 'v) list \<Rightarrow> string \<Rightarrow> error + 'v" where
  "subscript d k = (case map_of d k of None \<Rightarrow> Inl KeyError | Some v \<Rightarrow> Inr v)"

definition explain_dimension :: "string \<Rightarrow> pyfloat \<Rightarrow> error + string" where
  "explain_dimension dimension score =
     (case subscript explanations_table dimension of
        Inl e \<Rightarrow> Inl e
      | Inr row \<Rightarrow> subscript row (severity score))"

definition no_action :: string where
  "no_action = ''No immediate action required. Continue monitoring.''"

definition recommendations_table :: "(string \<times> string) list" where
  "recommendations_table =
    [(''Completeness'', ''Enforce mandatory field validation at data ingestion.''),
     (''Accuracy'', ''Apply value range checks and validation rules at the source.''),
     (''Validity'', ''Standardize formats and apply domain-level validations.''),
     (''Uniqueness'', ''Implement unique constraints and deduplication logic.''),
     (''Timeliness'', ''Optimize settlement workflows and monitor delays.''),
     (''Consistency'', ''Introduce cross-field validation rules.''),
     (''Integrity'', ''Enforce referential integrity across related datasets.'')]"

definition generate_recommendation :: "string \<Rightarrow> pyfloat \<Rightarrow> error + string" where
  "generate_recommendation dimension score =
     (if pf_ge score 85 then Inr no_action
      else subscript recommendations_table dimension)"

section \<open>Main pipeline\<close>

record report =
  overall_dqs :: pyfloat
  scores :: "(string \<times> pyfloat) list"
  explanations :: "(string \<times> string) list"
  recommendations :: "(string \<times> string) list"

text \<open>
  The dictionary comprehension \<^verbatim>\<open>{k: f(k, v) for k, v in scores.items()}\<close>: the entries in
  order, stopping at the first call that raises.
\<close>

fun comprehend :: "(string \<Rightarrow> pyfloat \<Rightarrow> error + string) \<Rightarrow> (string \<times> pyfloat) list
    \<Rightarrow> error + (string \<times> string) list" where
  "comprehend f [] = Inr []"
| "comprehend f ((k, v) # kvs) =
     (case f k v of
        Inl e \<Rightarrow> Inl e
      | Inr s \<Rightarrow> (case comprehend f kvs of Inl e \<Rightarrow> Inl e | Inr rest \<Rightarrow> Inr ((k, s) # rest)))"

text \<open>
  The statements of \<^verbatim>\<open>analyze_dataset\<close> after the \<^verbatim>\<open>scores\<close> dictionary is built: the two
  comprehensions, then \<^verbatim>\<open>round(sum(scores.values()) / len(scores), 2)\<close>, then the report.
\<close>

definition assemble :: "(string \<times> pyfloat) list \<Rightarrow> error + report" where
  "assemble scores_dict =
     (case comprehend explain_dimension scores_dict of
        Inl e \<Rightarrow> Inl e
      | Inr expl \<Rightarrow>
          (case comprehend generate_recommendation scores_dict of
             Inl e \<Rightarrow> Inl e
           | Inr recs \<Rightarrow>
               Inr \<lparr>overall_dqs =
                      pf_map round2
                        (pf_map (\<lambda>x. x / of_nat (length scores_dict))
                           (foldl pf_add (Fin 0) (map snd scores_dict))),
                    scores = scores_dict,
                    explanations = expl,
                    recommendations = recs\<rparr>))"

text \<open>
  \<^verbatim>\<open>analyze_dataset\<close> first builds the \<^verbatim>\<open>scores\<close> dictionary, evaluating its seven
  entries in the order written. The fourth is the call
  \<^verbatim>\<open>uniqueness_score(txn_df, "transaction_id")\<close>, with one argument more than the function
  declares. The result comes together with the transaction table as the calls leave
  it; the customer and merchant tables are only read.
\<close>

definition compute_scores ::
    "parser \<Rightarrow> txn list \<Rightarrow> id_column \<Rightarrow> id_column
      \<Rightarrow> (error + (string \<times> pyfloat) list) \<times> txn list" where
  "compute_scores parse txn_df cust_df merch_df =
     (let c = completeness_score txn_df;
          a = accuracy_score_amount txn_df;
          v = validity_score_currency txn_df
      in case uniqueness_score txn_df [''transaction_id''] of
           Inl e \<Rightarrow> (Inl e, txn_df)
         | Inr u \<Rightarrow>
             (case timeliness_score parse txn_df 7 of
                (Inl e, df') \<Rightarrow> (Inl e, df')
              | (Inr t, df') \<Rightarrow>
                  (let k = consistency_score df';
                       i = integrity_score df' cust_df merch_df
                   in (Inr [(''Completeness'', c), (''Accuracy'', a), (''Validity'', v),
                            (''Uniqueness'', u), (''Timeliness'', t), (''Consistency'', k),
                            (''Integrity'', i)], df'))))"

definition analyze_dataset ::
    "parser \<Rightarrow> txn list \<Rightarrow> id_column \<Rightarrow> id_column \<Rightarrow> (error + report) \<times> txn list" where
  "analyze_dataset parse txn_df cust_df merch_df =
     (case compute_scores parse txn_df cust_df merch_df of
        (Inl e, df') \<Rightarrow> (Inl e, df')
      | (Inr scores_dict, df') \<Rightarrow> (assemble scores_dict, df'))"

text \<open>
  The mean of a list of scores rounded to 2 decimals, as the glossary words it: the sum
  over the count, rounded; NaN when a score is NaN.
\<close>

fun the_fin :: "pyfloat \<Rightarrow> rat" where
  "the_fin (Fin x) = x"
| "the_fin NaN = 0"

definition rounded_mean :: "pyfloat list \<Rightarrow> pyfloat" where
  "rounded_mean xs =
     (if NaN \<in> set xs then NaN
      else Fin (round2 (sum_list (map the_fin xs) / of_nat (length xs))))"

text \<open>
  A parser for concrete runs, the same in every column. It reads the dates 1 and 3
  January 2024 as their midnight (UTC) without a time zone, four date-and-time texts as
  their instant without a time zone, one text ending in Z as an instant with a time
  zone, the empty text as missing, and rejects every other text.
\<close>

definition sample_parse :: parser where
  "sample_parse col s =
     (if s = ''2024-01-01'' then At 1704067200000000000
      else if s = ''2024-01-03'' then At 1704240000000000000
      else if s = ''2024-01-01 00:00:00'' then At 1704067200000000000
      else if s = ''2024-01-03 00:00:00'' then At 1704240000000000000
      else if s = ''2024-01-08 23:59:59'' then At 1704758399000000000
      else if s = ''2024-01-09 00:00:00'' then At 1704758400000000000
      else if s = ''2024-01-01T00:00:00Z'' then AtTz 1704067200000000000
      else if s = [] then Missing
      else Rejected)"

definition sample_row :: txn where
  "sample_row =
     \<lparr>transaction_id = Some ''1'', customer_id = Some ''C1'', merchant_id = Some ''M1'',
      currency_code = Some ''INR'', transaction_amount = Some 100,
      transaction_timestamp = Text ''2024-01-01'', settlement_date = Text ''2024-01-03''\<rparr>"

text \<open>
  Four rows for concrete runs, all with the transaction at midnight of 1 January 2024
  unless said otherwise: settled two days later; settled one second short of eight days
  later; settled exactly eight days later; and settled on 1 January for a transaction
  of 3 January (a negative difference).
\<close>

definition sample_rows :: "txn list" where
  "sample_rows =
     [sample_row\<lparr>settlement_date := Text ''2024-01-03 00:00:00''\<rparr>,
      sample_row\<lparr>settlement_date := Text ''2024-01-08 23:59:59''\<rparr>,
      sample_row\<lparr>settlement_date := Text ''2024-01-09 00:00:00''\<rparr>,
      sample_row\<lparr>transaction_timestamp := Text ''2024-01-03'',
                 settlement_date := Text ''2024-01-01 00:00:00''\<rparr>]"

text \<open>
  The reading of lateness that claim C10 gives, on a pair of converted cells (settlement,
  transaction): late exactly when both are instants and they are at least eight full
  days apart. This definition follows the claim, not the code.
\<close>

definition eight_days_apart :: "ts \<Rightarrow> ts \<Rightarrow> bool" where
  "eight_days_apart sv tv =
     (case (instant sv, instant tv) of
        (Some s, Some t) \<Rightarrow> 8 * ns_per_day \<le> s - t
      | _ \<Rightarrow> False)"

text \<open>
  The plain difference of two converted cells in nanoseconds, missing when an operand
  is: what the subtraction yields in a row where nothing overflows.
\<close>

definition plain_difference :: "ts \<Rightarrow> ts \<Rightarrow> int option" where
  "plain_difference a b =
     (case (instant a, instant b) of
        (Some s, Some t) \<Rightarrow> Some (s - t)
      | _ \<Rightarrow> None)"

text \<open>
  Every difference of two instants, row by row, fits 64 bits.
\<close>

definition differences_fit :: "ts list \<Rightarrow> ts list \<Rightarrow> bool" where
  "differences_fit a b =
     list_all (\<lambda>(x, y). case (instant x, instant y) of
                           (Some s, Some t) \<Rightarrow> in_int64 (s - t)
                         | _ \<Rightarrow> True) (zip a b)"

text \<open>
  The seven dimension names: the keys of \<^verbatim>\<open>scores\<close> in \<^verbatim>\<open>analyze_dataset\<close>, in their order.
\<close>

definition dimensions :: "string list" where
  "dimensions =
     [''Completeness'', ''Accuracy'', ''Validity'', ''Uniqueness'', ''Timeliness'',
      ''Consistency'', ''Integrity'']"

section \<open>Lookup tables\<close>

lemma explanations_keys: "map fst explanations_table = dimensions"
  by (simp add: explanations_table_def dimensions_def)

lemma recommendations_keys: "map fst recommendations_table = dimensions"
  by (simp add: recommendations_table_def dimensions_def)

lemma subscript_unknown: "k \<notin> set (map fst d) \<Longrightarrow> subscript d k = Inl KeyError"
  by (simp add: subscript_def map_of_eq_None_iff[THEN iffD2])

lemma subscript_known:
  assumes "k \<in> set (map fst d)"
  shows "\<exists>v. map_of d k = Some v \<and> subscript d k = Inr v"
proof -
  from assms have "map_of d k \<noteq> None"
    by (simp add: map_of_eq_None_iff)
  then obtain v where "map_of d k = Some v"
    by blast
  then show ?thesis
    by (simp add: subscript_def)
qed

section \<open>The uniqueness call\<close>

text \<open>
  No call of \<^verbatim>\<open>uniqueness_score\<close> returns a number, with or without further arguments, and
  so \<^verbatim>\<open>analyze_dataset\<close> returns no report on any input and leaves the table untouched.
  Had the dictionary of scores been built, the report would be assembled from it.
\<close>

lemma uniqueness_score_never_returns: "uniqueness_score df extra_args \<noteq> Inr v"
  by (simp add: uniqueness_score_def)

lemma analyze_dataset_never_returns:
  "analyze_dataset parse txn_df cust_df merch_df = (Inl TypeError, txn_df)"
  by (simp add: analyze_dataset_def compute_scores_def uniqueness_score_def Let_def)

lemma analyze_dataset_assembles:
  assumes "compute_scores parse txn_df cust_df merch_df = (Inr scores_dict, df')"
  shows "analyze_dataset parse txn_df cust_df merch_df = (assemble scores_dict, df')"
  using assms by (simp add: analyze_dataset_def)

text \<open>
  C1 (the code departs from the claim). The claim: the Uniqueness metric, called by the
  pipeline on the \<^verbatim>\<open>transaction_id\<close> column, returns 100 times the distinct count over the
  row count, rounded to 2 decimals. In the code the pipeline's call passes the table and
  the column name to a function that declares the table only, so the call raises
  TypeError and returns no number: here on the one-row table of the sample row.
\<close>

theorem uniqueness_call_raises:
  "uniqueness_score [sample_row] [''transaction_id''] = Inl TypeError"
  by (simp add: uniqueness_score_def)

section \<open>Explanations and recommendations\<close>

text \<open>
  C6. For every one of the seven dimension names and every score, the recommendation is
  the sentence "No immediate action required. Continue monitoring." when the score is at
  least 85, and otherwise the one sentence that the recommendation table holds for that
  dimension. A NaN score is not at least 85.
\<close>

theorem recommendation_by_threshold:
  assumes "dimension \<in> set dimensions"
  shows "\<exists>r. map_of recommendations_table dimension = Some r \<and>
           generate_recommendation dimension score =
             Inr (if pf_ge score 85
                  then ''No immediate action required. Continue monitoring.''
                  else r)"
proof -
  from assms have "dimension \<in> set (map fst recommendations_table)"
    by (simp only: recommendations_keys)
  then obtain r where "map_of recommendations_table dimension = Some r"
      and "subscript recommendations_table dimension = Inr r"
    using subscript_known by blast
  then show ?thesis
    by (simp add: generate_recommendation_def no_action_def)
qed

theorem recommendation_by_threshold_witness:
  "''Validity'' \<in> set dimensions \<and>
   generate_recommendation ''Validity'' (Fin 0) =
     Inr ''Standardize formats and apply domain-level validations.'' \<and>
   generate_recommendation ''Validity'' (Fin 85) =
     Inr ''No immediate action required. Continue monitoring.''"
proof -
  have m: "''Validity'' \<in> set dimensions"
    by (simp add: dimensions_def)
  have t: "map_of recommendations_table ''Validity'' =
      Some ''Standardize formats and apply domain-level validations.''"
    by (simp add: recommendations_table_def)
  from recommendation_by_threshold [OF m, of "Fin 0"]
    recommendation_by_threshold [OF m, of "Fin 85"] m t
  show ?thesis by simp
qed

text \<open>
  C7. For every score, the severity that selects the explanation is low when the score
  is at least 90, medium when it is at least 75 and below 90, and high when it is below 75.
\<close>

theorem severity_bands:
  "(pf_ge score 90 \<longrightarrow> severity score = ''low'') \<and>
   (pf_ge score 75 \<and> pf_lt score 90 \<longrightarrow> severity score = ''medium'') \<and>
   (pf_lt score 75 \<longrightarrow> severity score = ''high'')"
  by (cases score) (auto simp: severity_def)

theorem severity_bands_witness:
  "pf_ge (Fin 95) 90 \<and> severity (Fin 95) = ''low'' \<and>
   pf_ge (Fin 80) 75 \<and> pf_lt (Fin 80) 90 \<and> severity (Fin 80) = ''medium'' \<and>
   pf_lt (Fin 50) 75 \<and> severity (Fin 50) = ''high''"
  using severity_bands [of "Fin 95"] severity_bands [of "Fin 80"] severity_bands [of "Fin 50"]
  by simp

text \<open>
  C8 as stated: for a name that is not one of the seven, both resolvers fail. It does
  not hold: the recommendation for the unknown name "Freshness" at score 90 is returned,
  since the threshold test comes before the table lookup.
\<close>

theorem unknown_dimension_recommendation_returned:
  "generate_recommendation ''Freshness'' (Fin 90) =
     Inr ''No immediate action required. Continue monitoring.''"
  by (simp add: generate_recommendation_def no_action_def)

text \<open>
  C8 (amended). For every name that is not one of the seven and every score, resolving
  an explanation fails with KeyError; resolving a recommendation fails with KeyError
  when the score is not at least 85, and returns the sentence "No immediate action
  required. Continue monitoring." when it is.
\<close>

theorem unknown_dimension:
  assumes "dimension \<notin> set dimensions"
  shows "explain_dimension dimension score = Inl KeyError \<and>
         generate_recommendation dimension score =
           (if pf_ge score 85
            then Inr ''No immediate action required. Continue monitoring.''
            else Inl KeyError)"
proof -
  from assms have "subscript explanations_table dimension = Inl KeyError"
    by (intro subscript_unknown) (simp only: explanations_keys, simp)
  moreover from assms have "subscript recommendations_table dimension = Inl KeyError"
    by (intro subscript_unknown) (simp only: recommendations_keys, simp)
  ultimately show ?thesis
    by (simp add: explain_dimension_def generate_recommendation_def no_action_def)
qed

theorem unknown_dimension_witness:
  "''Freshness'' \<notin> set dimensions \<and>
   explain_dimension ''Freshness'' (Fin 90) = Inl KeyError \<and>
   generate_recommendation ''Freshness'' (Fin 50) = Inl KeyError"
proof -
  have m: "''Freshness'' \<notin> set dimensions"
    by (simp add: dimensions_def)
  from unknown_dimension [OF m, of "Fin 90"] unknown_dimension [OF m, of "Fin 50"] m
  show ?thesis by simp
qed

section \<open>The overall score\<close>

lemma severity_cases: "severity score = ''low'' \<or> severity score = ''medium'' \<or> severity score = ''high''"
  by (simp add: severity_def)

lemma explanation_rows:
  assumes "(d, row) \<in> set explanations_table"
  shows "map fst row = [''low'', ''medium'', ''high'']"
  using assms by (auto simp: explanations_table_def)

lemma explain_known:
  assumes "d \<in> set dimensions"
  shows "\<exists>s. explain_dimension d score = Inr s"
proof -
  from assms have "d \<in> set (map fst explanations_table)"
    by (simp only: explanations_keys)
  then obtain row where row: "map_of explanations_table d = Some row"
    and sub: "subscript explanations_table d = Inr row"
    using subscript_known by blast
  from row have "(d, row) \<in> set explanations_table"
    by (rule map_of_SomeD)
  then have "map fst row = [''low'', ''medium'', ''high'']"
    by (rule explanation_rows)
  with severity_cases [of score] have "severity score \<in> set (map fst row)"
    by auto
  then obtain s where "subscript row (severity score) = Inr s"
    using subscript_known by blast
  with sub show ?thesis
    by (simp add: explain_dimension_def)
qed

lemma recommend_known:
  assumes "d \<in> set dimensions"
  shows "\<exists>s. generate_recommendation d score = Inr s"
proof -
  from assms have "d \<in> set (map fst recommendations_table)"
    by (simp only: recommendations_keys)
  then obtain r where "subscript recommendations_table d = Inr r"
    using subscript_known by blast
  then show ?thesis
    by (simp add: generate_recommendation_def)
qed

lemma comprehend_succeeds:
  assumes "\<forall>(k, v)\<in>set kvs. \<exists>s. f k v = Inr s"
  shows "\<exists>r. comprehend f kvs = Inr r"
  using assms
proof (induction kvs)
  case Nil
  then show ?case by simp
next
  case (Cons kv kvs)
  obtain k v where kv: "kv = (k, v)"
    by (cases kv)
  from Cons.prems kv obtain s where "f k v = Inr s"
    by auto
  moreover from Cons obtain r where "comprehend f kvs = Inr r"
    by auto
  ultimately show ?case
    by (simp add: kv)
qed

lemma foldl_pf_add_NaN: "foldl pf_add NaN xs = NaN"
  by (induction xs) auto

lemma foldl_pf_add:
  "foldl pf_add (Fin z) xs =
     (if NaN \<in> set xs then NaN else Fin (z + sum_list (map the_fin xs)))"
proof (induction xs arbitrary: z)
  case Nil
  then show ?case by simp
next
  case (Cons x xs)
  then show ?case
    by (cases x) (auto simp: foldl_pf_add_NaN algebra_simps)
qed

lemma mean_of_scores:
  assumes "kvs \<noteq> []"
  shows "pf_map round2 (pf_map (\<lambda>x. x / of_nat (length kvs)) (foldl pf_add (Fin 0) (map snd kvs)))
     = rounded_mean (map snd kvs)"
  by (simp add: foldl_pf_add rounded_mean_def)

text \<open>
  C5. Whatever the seven dimension scores are, the statements of \<^verbatim>\<open>analyze_dataset\<close> that
  follow them return a report, with those scores, whose \<^verbatim>\<open>overall_dqs\<close> is their unweighted
  mean rounded to 2 decimals (NaN when a score is NaN). This is the report that
  \<^verbatim>\<open>analyze_dataset\<close> returns whenever the seven metric calls before it have succeeded.
\<close>

theorem overall_dqs_rounded_mean:
  "\<exists>expl recs.
     assemble [(''Completeness'', c), (''Accuracy'', a), (''Validity'', v),
               (''Uniqueness'', u), (''Timeliness'', t), (''Consistency'', k),
               (''Integrity'', i)]
       = Inr \<lparr>overall_dqs = rounded_mean [c, a, v, u, t, k, i],
              scores = [(''Completeness'', c), (''Accuracy'', a), (''Validity'', v),
                        (''Uniqueness'', u), (''Timeliness'', t), (''Consistency'', k),
                        (''Integrity'', i)],
              explanations = expl,
              recommendations = recs\<rparr>"
proof -
  let ?d = "[(''Completeness'', c), (''Accuracy'', a), (''Validity'', v),
               (''Uniqueness'', u), (''Timeliness'', t), (''Consistency'', k),
               (''Integrity'', i)]"
  have keys: "\<forall>(n, x)\<in>set ?d. n \<in> set dimensions"
    by (simp add: dimensions_def)
  then have "\<forall>(n, x)\<in>set ?d. \<exists>s. explain_dimension n x = Inr s"
    using explain_known by fast
  then obtain expl where expl: "comprehend explain_dimension ?d = Inr expl"
    using comprehend_succeeds by blast
  from keys have "\<forall>(n, x)\<in>set ?d. \<exists>s. generate_recommendation n x = Inr s"
    using recommend_known by fast
  then obtain recs where recs: "comprehend generate_recommendation ?d = Inr recs"
    using comprehend_succeeds by blast
  have "pf_map round2 (pf_map (\<lambda>x. x / of_nat (length ?d)) (foldl pf_add (Fin 0) (map snd ?d)))
      = rounded_mean (map snd ?d)"
    by (rule mean_of_scores) simp
  then have mean: "pf_map round2 (pf_map (\<lambda>x. x / of_nat (length ?d))
      (foldl pf_add (Fin 0) (map snd ?d))) = rounded_mean [c, a, v, u, t, k, i]"
    by simp
  show ?thesis
    unfolding assemble_def expl recs mean by simp
qed

section \<open>Rounding and counting\<close>

lemma round_half_even_lower: "\<lfloor>x\<rfloor> \<le> round_half_even x"
  by (simp add: round_half_even_def Let_def)

lemma round_half_even_upper: "round_half_even x \<le> \<lfloor>x\<rfloor> + 1"
  by (simp add: round_half_even_def Let_def)

lemma round_half_even_mono:
  assumes "x \<le> y"
  shows "round_half_even x \<le> round_half_even y"
proof (cases "\<lfloor>x\<rfloor> = \<lfloor>y\<rfloor>")
  case True
  with assms show ?thesis
    by (auto simp: round_half_even_def Let_def)
next
  case False
  with assms have "\<lfloor>x\<rfloor> + 1 \<le> \<lfloor>y\<rfloor>"
    using floor_mono [of x y] by linarith
  with round_half_even_upper [of x] round_half_even_lower [of y] show ?thesis
    by linarith
qed

lemma round2_mono: "x \<le> y \<Longrightarrow> round2 x \<le> round2 y"
  by (simp add: round2_def round_half_even_mono divide_right_mono)

lemma count_true_update:
  "i < length xs \<Longrightarrow> xs ! i \<Longrightarrow> Suc (length (filter id (xs[i := False]))) = length (filter id xs)"
proof (induction xs arbitrary: i)
  case Nil
  then show ?case by simp
next
  case (Cons x xs)
  then show ?case by (cases i) auto
qed

lemma score_of_mean_mono:
  assumes "xs \<noteq> []" and "length ys = length xs"
    and "length (filter id ys) \<le> length (filter id xs)"
  shows "pf_le (score_of (mean_bool xs)) (score_of (mean_bool ys))"
proof -
  from assms have ne: "ys \<noteq> []" by auto
  have "(of_nat (length (filter id ys)) :: rat) / of_nat (length xs)
      \<le> of_nat (length (filter id xs)) / of_nat (length xs)"
    using assms(3) by (simp add: divide_right_mono)
  then have "round2 (100 * (1 - of_nat (length (filter id xs)) / of_nat (length xs)))
     \<le> round2 (100 * (1 - of_nat (length (filter id ys)) / of_nat (length xs)))"
    by (intro round2_mono) simp
  with assms(1,2) ne show ?thesis
    by (simp add: score_of_def mean_bool_def)
qed

section \<open>Validity\<close>

text \<open>
  C9. Take any transaction table and any row of it whose currency code is not in the
  allowed list (a missing code included), and put one of INR, USD, EUR in its place,
  the rows otherwise as they were. Then the Validity score of the new table is at least
  the Validity score of the old one (both are numbers, the table having a row).
\<close>

theorem validity_monotone:
  assumes "i < length df"
    and "\<not> isin (currency_code (df ! i)) (map Some VALID_CURRENCIES)"
    and "c \<in> set VALID_CURRENCIES"
  shows "pf_le (validity_score_currency df)
           (validity_score_currency (df[i := (df ! i)\<lparr>currency_code := Some c\<rparr>]))"
proof -
  let ?f = "\<lambda>r. \<not> isin (currency_code r) (map Some VALID_CURRENCIES)"
  let ?xs = "map ?f df"
  have upd: "map ?f (df[i := (df ! i)\<lparr>currency_code := Some c\<rparr>]) = ?xs[i := False]"
    using assms(3) by (simp add: map_update isin_def)
  have "Suc (length (filter id (?xs[i := False]))) = length (filter id ?xs)"
    using assms(1,2) by (intro count_true_update) simp_all
  then have "length (filter id (?xs[i := False])) \<le> length (filter id ?xs)"
    by linarith
  moreover have "?xs \<noteq> []" using assms(1) by auto
  ultimately have "pf_le (score_of (mean_bool ?xs)) (score_of (mean_bool (?xs[i := False])))"
    by (intro score_of_mean_mono) simp_all
  with upd show ?thesis
    by (simp add: validity_score_currency_def Let_def)
qed

theorem validity_monotone_witness:
  "(0::nat) < length [sample_row\<lparr>currency_code := Some ''GBP''\<rparr>] \<and>
   \<not> isin (currency_code ([sample_row\<lparr>currency_code := Some ''GBP''\<rparr>] ! 0)) (map Some VALID_CURRENCIES) \<and>
   ''USD'' \<in> set VALID_CURRENCIES \<and>
   validity_score_currency [sample_row\<lparr>currency_code := Some ''GBP''\<rparr>] = Fin 0 \<and>
   validity_score_currency [sample_row\<lparr>currency_code := Some ''USD''\<rparr>] = Fin 100 \<and>
   pf_le (validity_score_currency [sample_row\<lparr>currency_code := Some ''GBP''\<rparr>])
         (validity_score_currency [sample_row\<lparr>currency_code := Some ''USD''\<rparr>])"
proof -
  have a: "(0::nat) < length [sample_row\<lparr>currency_code := Some ''GBP''\<rparr>]" by simp
  have b: "\<not> isin (currency_code ([sample_row\<lparr>currency_code := Some ''GBP''\<rparr>] ! 0)) (map Some VALID_CURRENCIES)"
    by (simp add: isin_def VALID_CURRENCIES_def)
  have c: "''USD'' \<in> set VALID_CURRENCIES" by (simp add: VALID_CURRENCIES_def)
  have d: "validity_score_currency [sample_row\<lparr>currency_code := Some ''GBP''\<rparr>] = Fin 0"
    by (simp add: validity_score_currency_def isin_def VALID_CURRENCIES_def mean_bool_def score_of_def round2_def round_half_even_def)
  have e: "validity_score_currency [sample_row\<lparr>currency_code := Some ''USD''\<rparr>] = Fin 100"
    by (simp add: validity_score_currency_def isin_def VALID_CURRENCIES_def mean_bool_def score_of_def round2_def round_half_even_def)
  from validity_monotone [OF a b c] a b c d e show ?thesis by simp
qed

section \<open>Sequencing\<close>

lemma sequence_length: "sequence xs = Inr vs \<Longrightarrow> length vs = length xs"
  by (induction xs arbitrary: vs) (auto split: sum.splits)

lemma sequence_nth: "sequence xs = Inr vs \<Longrightarrow> i < length xs \<Longrightarrow> xs ! i = Inr (vs ! i)"
proof (induction xs arbitrary: vs i)
  case Nil
  then show ?case by simp
next
  case (Cons x xs)
  then show ?case by (cases i) (auto split: sum.splits)
qed

lemma sequence_error: "sequence xs = Inl e \<Longrightarrow> Inl e \<in> set xs"
  by (induction xs) (auto split: sum.splits)

lemma sequence_fails: "Inl e \<in> set xs \<Longrightarrow> \<exists>e'. sequence xs = Inl e'"
  by (induction xs) (auto split: sum.splits)

lemma sequence_map_Inr: "sequence (map Inr vs) = Inr vs"
  by (induction vs) auto

lemma sequence_succeeds:
  assumes "\<forall>x\<in>set xs. \<exists>v. x = Inr v"
  shows "\<exists>vs. sequence xs = Inr vs"
  using assms by (induction xs) (auto split: sum.splits)

section \<open>Conversion of timestamp columns\<close>

lemma to_datetime_cell_error: "to_datetime_cell reading c = Inl e \<Longrightarrow> e = ValueError"
  by (cases c) (auto split: parsed.splits if_splits)

lemma to_datetime_cell_fixed:
  "to_datetime_cell reading c = Inr v \<Longrightarrow> to_datetime_cell reading' v = Inr v"
  by (cases c) (auto split: parsed.splits if_splits)

lemma to_datetime_error:
  assumes "to_datetime parse col = Inl e"
  shows "e = ValueError"
proof (cases "sequence (map (to_datetime_cell (parse col)) col)")
  case (Inl e')
  then have "Inl e' \<in> set (map (to_datetime_cell (parse col)) col)"
    by (rule sequence_error)
  then have "e' = ValueError"
    by (auto dest: to_datetime_cell_error [OF sym])
  with Inl assms show ?thesis
    by (simp add: to_datetime_def)
next
  case (Inr vs)
  with assms show ?thesis
    by (simp add: to_datetime_def split: if_splits)
qed

lemma to_datetime_cells:
  assumes "to_datetime parse col = Inr vs"
  shows "sequence (map (to_datetime_cell (parse col)) col) = Inr vs"
    and "\<not> (list_ex is_naive vs \<and> list_ex is_aware vs)"
  using assms by (auto simp: to_datetime_def split: sum.splits if_splits)

lemma to_datetime_length:
  assumes "to_datetime parse col = Inr vs"
  shows "length vs = length col"
  using sequence_length [OF to_datetime_cells(1) [OF assms]] by simp

lemma to_datetime_nth:
  assumes "to_datetime parse col = Inr vs" and "i < length col"
  shows "to_datetime_cell (parse col) (col ! i) = Inr (vs ! i)"
  using sequence_nth [OF to_datetime_cells(1) [OF assms(1)], of i] assms(2) by simp

lemma to_datetime_fixed:
  assumes "to_datetime parse col = Inr vs"
  shows "to_datetime parse vs = Inr vs"
proof -
  have len: "length vs = length col"
    using assms by (rule to_datetime_length)
  have "map (to_datetime_cell (parse vs)) vs = map Inr vs"
  proof (rule nth_equalityI)
    show "length (map (to_datetime_cell (parse vs)) vs) = length (map Inr vs)"
      by simp
  next
    fix i
    assume "i < length (map (to_datetime_cell (parse vs)) vs)"
    then have i: "i < length col"
      using len by simp
    have "to_datetime_cell (parse vs) (vs ! i) = Inr (vs ! i)"
      using to_datetime_nth [OF assms i] by (rule to_datetime_cell_fixed)
    with i len show "map (to_datetime_cell (parse vs)) vs ! i = map Inr vs ! i"
      by simp
  qed
  then have "sequence (map (to_datetime_cell (parse vs)) vs) = sequence (map Inr vs)"
    by (rule arg_cong)
  then have "sequence (map (to_datetime_cell (parse vs)) vs) = Inr vs"
    by (simp only: sequence_map_Inr)
  with to_datetime_cells(2) [OF assms] show ?thesis
    by (simp add: to_datetime_def)
qed

lemma to_datetime_rejects:
  assumes "c \<in> set col" and "to_datetime_cell (parse col) c = Inl ValueError"
  shows "to_datetime parse col = Inl ValueError"
proof -
  from assms have "Inl ValueError \<in> set (map (to_datetime_cell (parse col)) col)"
    by force
  then obtain e where e: "sequence (map (to_datetime_cell (parse col)) col) = Inl e"
    using sequence_fails by blast
  then have "to_datetime parse col = Inl e"
    by (simp add: to_datetime_def)
  then show ?thesis
    using to_datetime_error by blast
qed

section \<open>Column assignment\<close>

lemma set_tt_length: "length col = length df \<Longrightarrow> length (set_transaction_timestamp df col) = length df"
  by (simp add: set_transaction_timestamp_def)

lemma set_sd_length: "length col = length df \<Longrightarrow> length (set_settlement_date df col) = length df"
  by (simp add: set_settlement_date_def)

lemma set_tt_column:
  "length col = length df \<Longrightarrow> map transaction_timestamp (set_transaction_timestamp df col) = col"
  unfolding set_transaction_timestamp_def
  by (induction df col rule: list_induct2') auto

lemma set_sd_column:
  "length col = length df \<Longrightarrow> map settlement_date (set_settlement_date df col) = col"
  unfolding set_settlement_date_def
  by (induction df col rule: list_induct2') auto

lemma set_tt_other:
  assumes "length col = length df" and "\<And>r v. g (r\<lparr>transaction_timestamp := v\<rparr>) = g r"
  shows "map g (set_transaction_timestamp df col) = map g df"
  using assms unfolding set_transaction_timestamp_def
  by (induction df col rule: list_induct2') auto

lemma set_sd_other:
  assumes "length col = length df" and "\<And>r v. g (r\<lparr>settlement_date := v\<rparr>) = g r"
  shows "map g (set_settlement_date df col) = map g df"
  using assms unfolding set_settlement_date_def
  by (induction df col rule: list_induct2') auto

lemma set_tt_same: "set_transaction_timestamp df (map transaction_timestamp df) = df"
  unfolding set_transaction_timestamp_def by (induction df) auto

lemma set_sd_same: "set_settlement_date df (map settlement_date df) = df"
  unfolding set_settlement_date_def by (induction df) auto

section \<open>Runs of the timeliness metric\<close>

lemma timeliness_score_reject_first:
  assumes "to_datetime parse (map transaction_timestamp df) = Inl e"
  shows "timeliness_score parse df m = (Inl ValueError, df)"
  using assms to_datetime_error [OF assms] by (simp add: timeliness_score_def)

lemma timeliness_score_reject_second:
  assumes t: "to_datetime parse (map transaction_timestamp df) = Inr tcol"
      and s: "to_datetime parse (map settlement_date df) = Inl e"
  shows "timeliness_score parse df m = (Inl ValueError, set_transaction_timestamp df tcol)"
proof -
  have lt: "length tcol = length df"
    using to_datetime_length [OF t] by simp
  have s1: "map settlement_date (set_transaction_timestamp df tcol) = map settlement_date df"
    using lt by (rule set_tt_other) simp
  from t s s1 to_datetime_error [OF s] show ?thesis
    by (simp add: timeliness_score_def Let_def)
qed

lemma timeliness_score_converted:
  assumes t: "to_datetime parse (map transaction_timestamp df) = Inr tcol"
    and s: "to_datetime parse (map settlement_date df) = Inr scol"
  shows "timeliness_score parse df m =
           (case subtract_columns scol tcol of
              Inl e \<Rightarrow> (Inl e, set_settlement_date (set_transaction_timestamp df tcol) scol)
            | Inr difference \<Rightarrow>
                (Inr (score_of (mean_bool (map (is_late m) (map days difference)))),
                 set_settlement_date (set_transaction_timestamp df tcol) scol))"
proof -
  have lt: "length tcol = length df"
    using to_datetime_length [OF t] by simp
  have ls: "length scol = length df"
    using to_datetime_length [OF s] by simp
  let ?df1 = "set_transaction_timestamp df tcol"
  let ?df2 = "set_settlement_date ?df1 scol"
  have l1: "length ?df1 = length df"
    using lt by (rule set_tt_length)
  have s1: "map settlement_date ?df1 = map settlement_date df"
    using lt by (rule set_tt_other) simp
  have ls1: "length scol = length ?df1"
    using ls l1 by simp
  have c2s: "map settlement_date ?df2 = scol"
    using ls1 by (rule set_sd_column)
  have c2t: "map transaction_timestamp ?df2 = tcol"
    using set_sd_other [OF ls1, of transaction_timestamp] set_tt_column [OF lt] by simp
  from t s s1 c2s c2t show ?thesis
    by (simp add: timeliness_score_def Let_def split: sum.splits)
qed

lemma subtract_columns_mismatch:
  "tz_aware_column a \<noteq> tz_aware_column b \<Longrightarrow> subtract_columns a b = Inl TypeError"
  by (simp add: subtract_columns_def)

lemma timedelta_fits:
  assumes "case (instant x, instant y) of (Some s, Some t) \<Rightarrow> in_int64 (s - t) | _ \<Rightarrow> True"
  shows "timedelta x y = Inr (plain_difference x y)"
  using assms by (auto simp: timedelta_def plain_difference_def in_int64_def split: option.splits)

lemma sequence_timedelta_fits:
  "differences_fit a b \<Longrightarrow> sequence (map2 timedelta a b) = Inr (map2 plain_difference a b)"
proof (induction a b rule: list_induct2')
  case (4 x xs y ys)
  then have "differences_fit xs ys"
    and "case (instant x, instant y) of (Some s, Some t) \<Rightarrow> in_int64 (s - t) | _ \<Rightarrow> True"
    by (simp_all add: differences_fit_def)
  with 4 show ?case
    by (simp add: timedelta_fits)
qed simp_all

lemma subtract_columns_fit:
  assumes "tz_aware_column a = tz_aware_column b" and "differences_fit a b"
  shows "subtract_columns a b = Inr (map2 plain_difference a b)"
  using assms by (simp add: subtract_columns_def sequence_timedelta_fits)

lemma plain_difference_missing: "x = NaT \<or> y = NaT \<Longrightarrow> plain_difference x y = None"
  by (auto simp: plain_difference_def split: option.splits)

lemma is_late_7: "is_late 7 (days (plain_difference sv tv)) = eight_days_apart sv tv"
proof (cases "instant sv")
  case None
  then show ?thesis
    by (simp add: is_late_def days_def eight_days_apart_def plain_difference_def)
next
  case (Some s)
  show ?thesis
  proof (cases "instant tv")
    case None
    with Some show ?thesis
      by (simp add: is_late_def days_def eight_days_apart_def plain_difference_def)
  next
    case t: (Some t)
    have "7 < (s - t) div 86400000000000 \<longleftrightarrow> 8 * 86400000000000 \<le> s - t"
      by arith
    with Some t show ?thesis
      by (simp add: is_late_def days_def eight_days_apart_def plain_difference_def ns_per_day_def)
  qed
qed

lemma timeliness_score_success:
  assumes t: "to_datetime parse (map transaction_timestamp df) = Inr tcol"
    and s: "to_datetime parse (map settlement_date df) = Inr scol"
    and tz: "tz_aware_column scol = tz_aware_column tcol"
    and fit: "differences_fit scol tcol"
  shows "timeliness_score parse df m =
           (Inr (score_of (mean_bool
                   (map2 (\<lambda>x y. is_late m (days (plain_difference x y))) scol tcol))),
            set_settlement_date (set_transaction_timestamp df tcol) scol)"
proof -
  have "map (is_late m) (map days (map2 plain_difference scol tcol))
      = map2 (\<lambda>x y. is_late m (days (plain_difference x y))) scol tcol"
    by auto
  then show ?thesis
    by (simp only: timeliness_score_converted [OF t s] subtract_columns_fit [OF tz fit]
        sum.case)
qed

lemma sample_transaction_column:
  "to_datetime sample_parse (map transaction_timestamp sample_rows) =
     Inr [Stamp 1704067200000000000, Stamp 1704067200000000000,
          Stamp 1704067200000000000, Stamp 1704240000000000000]"
  by (simp add: to_datetime_def sample_rows_def sample_row_def sample_parse_def in_int64_def)

lemma sample_settlement_column:
  "to_datetime sample_parse (map settlement_date sample_rows) =
     Inr [Stamp 1704240000000000000, Stamp 1704758399000000000,
          Stamp 1704758400000000000, Stamp 1704067200000000000]"
  by (simp add: to_datetime_def sample_rows_def sample_row_def sample_parse_def in_int64_def)

lemma score_of_quarter: "score_of (mean_bool [False, False, True, False]) = Fin 75"
  by (simp add: score_of_def mean_bool_def round2_def round_half_even_def)

lemma score_of_none_late: "score_of (mean_bool [False]) = Fin 100"
  by (simp add: score_of_def mean_bool_def round2_def round_half_even_def)

section \<open>Timeliness\<close>

text \<open>
  C10. When both timestamp columns convert, both with a time zone or both without, and
  no difference overflows, the Timeliness score with the default limit of 7 days is
  \<^verbatim>\<open>round(100 * (1 - late.mean()), 2)\<close> where a row is late exactly when both its cells
  are instants and the settlement is at least eight full days after the transaction. So
  every row whose difference is less than eight full days, a negative difference
  included, is counted as on time.
\<close>

theorem timeliness_whole_days:
  assumes "to_datetime parse (map transaction_timestamp df) = Inr tcol"
    and "to_datetime parse (map settlement_date df) = Inr scol"
    and "tz_aware_column scol = tz_aware_column tcol"
    and "differences_fit scol tcol"
  shows "fst (timeliness_score parse df 7) =
           Inr (score_of (mean_bool (map2 eight_days_apart scol tcol)))"
  using timeliness_score_success [OF assms, of 7] by (simp add: is_late_7)

theorem timeliness_whole_days_witness:
  "to_datetime sample_parse (map transaction_timestamp sample_rows) =
     Inr [Stamp 1704067200000000000, Stamp 1704067200000000000,
          Stamp 1704067200000000000, Stamp 1704240000000000000] \<and>
   to_datetime sample_parse (map settlement_date sample_rows) =
     Inr [Stamp 1704240000000000000, Stamp 1704758399000000000,
          Stamp 1704758400000000000, Stamp 1704067200000000000] \<and>
   tz_aware_column [Stamp 1704240000000000000, Stamp 1704758399000000000,
          Stamp 1704758400000000000, Stamp 1704067200000000000] =
   tz_aware_column [Stamp 1704067200000000000, Stamp 1704067200000000000,
          Stamp 1704067200000000000, Stamp 1704240000000000000] \<and>
   differences_fit [Stamp 1704240000000000000, Stamp 1704758399000000000,
          Stamp 1704758400000000000, Stamp 1704067200000000000]
     [Stamp 1704067200000000000, Stamp 1704067200000000000,
          Stamp 1704067200000000000, Stamp 1704240000000000000] \<and>
   fst (timeliness_score sample_parse sample_rows 7) = Inr (Fin 75)"
proof -
  have tz: "tz_aware_column [Stamp 1704240000000000000, Stamp 1704758399000000000,
          Stamp 1704758400000000000, Stamp 1704067200000000000] =
   tz_aware_column [Stamp 1704067200000000000, Stamp 1704067200000000000,
          Stamp 1704067200000000000, Stamp 1704240000000000000]"
    by (simp add: tz_aware_column_def)
  have fit: "differences_fit [Stamp 1704240000000000000, Stamp 1704758399000000000,
          Stamp 1704758400000000000, Stamp 1704067200000000000]
     [Stamp 1704067200000000000, Stamp 1704067200000000000,
          Stamp 1704067200000000000, Stamp 1704240000000000000]"
    by (simp add: differences_fit_def in_int64_def)
  from timeliness_whole_days [OF sample_transaction_column sample_settlement_column tz fit]
  have "fst (timeliness_score sample_parse sample_rows 7) = Inr (Fin 75)"
    using score_of_quarter by (simp add: eight_days_apart_def ns_per_day_def)
  with sample_transaction_column sample_settlement_column tz fit show ?thesis
    by (simp only: simp_thms)
qed

section \<open>The empty table\<close>

text \<open>
  C2 as stated: on the table with no rows, Completeness fails and does not return NaN.
  It does not hold: Completeness returns NaN there.
\<close>

theorem completeness_empty_nan: "completeness_score [] = NaN"
  by (simp add: completeness_score_def score_of_def np_div_def)

text \<open>
  C2 (amended). On the transaction table with no rows, and on no other table,
  Completeness returns NaN; it raises nothing. (Nothing is said of Uniqueness, whose call
  fails on every table.)
\<close>

theorem completeness_nan_iff_empty: "completeness_score df = NaN \<longleftrightarrow> df = []"
  by (simp add: completeness_score_def score_of_def np_div_def Let_def)

section \<open>Timeliness and timestamps that do not parse\<close>

text \<open>
  C3 as stated: a row whose timestamp cannot be parsed is counted as late and Timeliness
  does not raise. It does not hold: on a one-row table whose settlement date is the text
  "soon", the call raises ValueError (after it has overwritten the first column).
\<close>

theorem timeliness_raises_on_unparseable:
  "timeliness_score sample_parse [sample_row\<lparr>settlement_date := Text ''soon''\<rparr>] 7
     = (Inl ValueError, [sample_row\<lparr>transaction_timestamp := Stamp 1704067200000000000,
                                   settlement_date := Text ''soon''\<rparr>])"
  by (simp add: timeliness_score_def to_datetime_def sample_parse_def sample_row_def
      set_transaction_timestamp_def in_int64_def)

text \<open>
  C3 (amended). If the conversion of either timestamp column fails, as it does whenever
  a row holds a text that is rejected in its column, Timeliness raises ValueError and
  returns no score. If both columns convert but one carries a time zone and the other
  does not, it raises TypeError and returns no score. If both convert, agree on the
  time zone and no difference overflows, it returns the score of a late column with one
  entry for each row of the table, none dropped, in which every row with a missing
  timestamp (in either column, after conversion) is not late.
\<close>

theorem timeliness_unparseable:
  "((\<exists>r\<in>set df.
        to_datetime_cell (parse (map transaction_timestamp df)) (transaction_timestamp r)
          = Inl ValueError
        \<or> to_datetime_cell (parse (map settlement_date df)) (settlement_date r)
          = Inl ValueError)
      \<longrightarrow> fst (timeliness_score parse df m) = Inl ValueError) \<and>
   (to_datetime parse (map transaction_timestamp df) = Inl e
      \<or> to_datetime parse (map settlement_date df) = Inl e
      \<longrightarrow> fst (timeliness_score parse df m) = Inl ValueError) \<and>
   (to_datetime parse (map transaction_timestamp df) = Inr tcol
      \<and> to_datetime parse (map settlement_date df) = Inr scol
      \<and> tz_aware_column scol \<noteq> tz_aware_column tcol
      \<longrightarrow> fst (timeliness_score parse df m) = Inl TypeError) \<and>
   (to_datetime parse (map transaction_timestamp df) = Inr tcol
      \<and> to_datetime parse (map settlement_date df) = Inr scol
      \<and> tz_aware_column scol = tz_aware_column tcol
      \<and> differences_fit scol tcol
      \<longrightarrow> (\<exists>late. fst (timeliness_score parse df m) = Inr (score_of (mean_bool late))
             \<and> length late = length df
             \<and> (\<forall>i<length df. tcol ! i = NaT \<or> scol ! i = NaT \<longrightarrow> \<not> late ! i)))"
proof (intro conjI impI)
  fix e'
  have column_fails: "fst (timeliness_score parse df m) = Inl ValueError"
    if "to_datetime parse (map transaction_timestamp df) = Inl e'
      \<or> to_datetime parse (map settlement_date df) = Inl e'" for e'
  proof (cases "to_datetime parse (map transaction_timestamp df)")
    case (Inl x)
    then show ?thesis
      by (simp add: timeliness_score_reject_first)
  next
    case (Inr tc)
    with that have "to_datetime parse (map settlement_date df) = Inl e'"
      by simp
    with Inr show ?thesis
      by (simp add: timeliness_score_reject_second)
  qed
  {
    assume "to_datetime parse (map transaction_timestamp df) = Inl e
      \<or> to_datetime parse (map settlement_date df) = Inl e"
    then show "fst (timeliness_score parse df m) = Inl ValueError"
      by (rule column_fails)
  }
  {
    assume "\<exists>r\<in>set df.
        to_datetime_cell (parse (map transaction_timestamp df)) (transaction_timestamp r)
          = Inl ValueError
        \<or> to_datetime_cell (parse (map settlement_date df)) (settlement_date r)
          = Inl ValueError"
    then obtain r where r: "r \<in> set df"
      and bad: "to_datetime_cell (parse (map transaction_timestamp df)) (transaction_timestamp r)
          = Inl ValueError
        \<or> to_datetime_cell (parse (map settlement_date df)) (settlement_date r)
          = Inl ValueError"
      by blast
    from r have "transaction_timestamp r \<in> set (map transaction_timestamp df)"
      and "settlement_date r \<in> set (map settlement_date df)"
      by simp_all
    with bad have "to_datetime parse (map transaction_timestamp df) = Inl ValueError
      \<or> to_datetime parse (map settlement_date df) = Inl ValueError"
      using to_datetime_rejects by blast
    then show "fst (timeliness_score parse df m) = Inl ValueError"
      by (rule column_fails)
  }
  {
    assume "to_datetime parse (map transaction_timestamp df) = Inr tcol
      \<and> to_datetime parse (map settlement_date df) = Inr scol
      \<and> tz_aware_column scol \<noteq> tz_aware_column tcol"
    then show "fst (timeliness_score parse df m) = Inl TypeError"
      by (simp add: timeliness_score_converted subtract_columns_mismatch)
  }
  {
    assume a: "to_datetime parse (map transaction_timestamp df) = Inr tcol
      \<and> to_datetime parse (map settlement_date df) = Inr scol
      \<and> tz_aware_column scol = tz_aware_column tcol
      \<and> differences_fit scol tcol"
    then have t: "to_datetime parse (map transaction_timestamp df) = Inr tcol"
      and s: "to_datetime parse (map settlement_date df) = Inr scol"
      and tz: "tz_aware_column scol = tz_aware_column tcol"
      and fit: "differences_fit scol tcol"
      by simp_all
    have lt: "length tcol = length df"
      using to_datetime_length [OF t] by simp
    have ls: "length scol = length df"
      using to_datetime_length [OF s] by simp
    let ?late = "map2 (\<lambda>x y. is_late m (days (plain_difference x y))) scol tcol"
    have "fst (timeliness_score parse df m) = Inr (score_of (mean_bool ?late))"
      by (simp add: timeliness_score_success [OF t s tz fit])
    moreover have "length ?late = length df"
      using lt ls by simp
    moreover have "\<forall>i<length df. tcol ! i = NaT \<or> scol ! i = NaT \<longrightarrow> \<not> ?late ! i"
      using lt ls by (auto simp: is_late_def days_def plain_difference_missing)
    ultimately show "\<exists>late. fst (timeliness_score parse df m) = Inr (score_of (mean_bool late))
             \<and> length late = length df
             \<and> (\<forall>i<length df. tcol ! i = NaT \<or> scol ! i = NaT \<longrightarrow> \<not> late ! i)"
      by blast
  }
qed

theorem timeliness_unparseable_witness:
  "to_datetime_cell
      (sample_parse (map settlement_date [sample_row\<lparr>settlement_date := Text ''soon''\<rparr>]))
      (settlement_date (sample_row\<lparr>settlement_date := Text ''soon''\<rparr>)) = Inl ValueError \<and>
   to_datetime sample_parse
      (map settlement_date [sample_row\<lparr>settlement_date := Text ''soon''\<rparr>]) = Inl ValueError \<and>
   fst (timeliness_score sample_parse [sample_row\<lparr>settlement_date := Text ''soon''\<rparr>] 7)
     = Inl ValueError \<and>
   to_datetime sample_parse
      (map transaction_timestamp
         [sample_row\<lparr>transaction_timestamp := Text ''2024-01-01T00:00:00Z''\<rparr>])
     = Inr [StampTz 1704067200000000000] \<and>
   to_datetime sample_parse
      (map settlement_date
         [sample_row\<lparr>transaction_timestamp := Text ''2024-01-01T00:00:00Z''\<rparr>])
     = Inr [Stamp 1704240000000000000] \<and>
   tz_aware_column [Stamp 1704240000000000000] \<noteq> tz_aware_column [StampTz 1704067200000000000] \<and>
   fst (timeliness_score sample_parse
          [sample_row\<lparr>transaction_timestamp := Text ''2024-01-01T00:00:00Z''\<rparr>] 7)
     = Inl TypeError \<and>
   to_datetime sample_parse (map transaction_timestamp [sample_row\<lparr>settlement_date := NaT\<rparr>])
     = Inr [Stamp 1704067200000000000] \<and>
   to_datetime sample_parse (map settlement_date [sample_row\<lparr>settlement_date := NaT\<rparr>])
     = Inr [NaT] \<and>
   tz_aware_column [NaT] = tz_aware_column [Stamp 1704067200000000000] \<and>
   differences_fit [NaT] [Stamp 1704067200000000000] \<and>
   fst (timeliness_score sample_parse [sample_row\<lparr>settlement_date := NaT\<rparr>] 7)
     = Inr (Fin 100)"
proof -
  let ?A = "[sample_row\<lparr>settlement_date := Text ''soon''\<rparr>]"
  let ?B = "[sample_row\<lparr>settlement_date := NaT\<rparr>]"
  let ?C = "[sample_row\<lparr>transaction_timestamp := Text ''2024-01-01T00:00:00Z''\<rparr>]"
  have a1: "to_datetime_cell (sample_parse (map settlement_date ?A))
      (settlement_date (sample_row\<lparr>settlement_date := Text ''soon''\<rparr>)) = Inl ValueError"
    by (simp add: sample_parse_def)
  have a2: "to_datetime sample_parse (map settlement_date ?A) = Inl ValueError"
    by (simp add: to_datetime_def sample_parse_def)
  have c1: "to_datetime sample_parse (map transaction_timestamp ?C)
      = Inr [StampTz 1704067200000000000]"
    by (simp add: to_datetime_def sample_parse_def in_int64_def)
  have c2: "to_datetime sample_parse (map settlement_date ?C) = Inr [Stamp 1704240000000000000]"
    by (simp add: to_datetime_def sample_parse_def sample_row_def in_int64_def)
  have c3: "tz_aware_column [Stamp 1704240000000000000]
      \<noteq> tz_aware_column [StampTz 1704067200000000000]"
    by (simp add: tz_aware_column_def)
  have b1: "to_datetime sample_parse (map transaction_timestamp ?B)
      = Inr [Stamp 1704067200000000000]"
    by (simp add: to_datetime_def sample_parse_def sample_row_def in_int64_def)
  have b2: "to_datetime sample_parse (map settlement_date ?B) = Inr [NaT]"
    by (simp add: to_datetime_def)
  have b3: "tz_aware_column [NaT] = tz_aware_column [Stamp 1704067200000000000]"
    by (simp add: tz_aware_column_def)
  have b4: "differences_fit [NaT] [Stamp 1704067200000000000]"
    by (simp add: differences_fit_def)
  have ra: "fst (timeliness_score sample_parse ?A 7) = Inl ValueError"
    using timeliness_unparseable [of ?A sample_parse 7 ValueError] a2 by blast
  have rc: "fst (timeliness_score sample_parse ?C 7) = Inl TypeError"
    using timeliness_unparseable [of ?C sample_parse 7 _ "[StampTz 1704067200000000000]"
        "[Stamp 1704240000000000000]"] c1 c2 c3
    by blast
  from timeliness_unparseable [of ?B sample_parse 7 _ "[Stamp 1704067200000000000]" "[NaT]"]
    b1 b2 b3 b4
  obtain late where l: "fst (timeliness_score sample_parse ?B 7) = Inr (score_of (mean_bool late))"
      "length late = length ?B"
      "\<forall>i<length ?B. [Stamp 1704067200000000000] ! i = NaT \<or> [NaT] ! i = NaT \<longrightarrow> \<not> late ! i"
    by blast
  from l(3) have "\<not> late ! 0"
    by simp
  moreover from l(2) obtain x where "late = [x]"
    by (cases late) auto
  ultimately have "late = [False]"
    by simp
  with l(1) have rb: "fst (timeliness_score sample_parse ?B 7) = Inr (Fin 100)"
    by (simp add: score_of_none_late)
  from a1 a2 ra c1 c2 c3 rc b1 b2 b3 b4 rb show ?thesis
    by (simp only: simp_thms)
qed

section \<open>What Timeliness writes\<close>

text \<open>
  C4 as stated: no metric function changes the table it receives. It does not hold:
  after Timeliness has run on the one-row sample table, the two timestamp cells of the
  caller's table hold instants where they held text.
\<close>
theorem timeliness_rewrites_columns:
  "snd (timeliness_score sample_parse [sample_row] 7)
     = [sample_row\<lparr>transaction_timestamp := Stamp 1704067200000000000,
                   settlement_date := Stamp 1704240000000000000\<rparr>] \<and>
   snd (timeliness_score sample_parse [sample_row] 7) \<noteq> [sample_row]"
  by (simp add: timeliness_score_def to_datetime_def sample_parse_def sample_row_def
      set_transaction_timestamp_def set_settlement_date_def in_int64_def
      subtract_columns_def tz_aware_column_def timedelta_def split: sum.splits)

text \<open>
  C4 (amended). Timeliness writes to the table it receives, and only to its two
  timestamp columns: whatever the outcome, the table it leaves has the same number of
  rows and the same transaction_id, customer_id, merchant_id, currency_code and
  transaction_amount columns. When it returns a score, the two timestamp columns hold
  the converted values, and a second call on the table it left returns the same score
  and leaves that table as it is. The six other metric functions are expressions over
  their arguments and assign to nothing.
\<close>
theorem timeliness_frame:
  assumes "timeliness_score parse df m = (res, df')"
  shows "length df' = length df \<and>
         map transaction_id df' = map transaction_id df \<and>
         map customer_id df' = map customer_id df \<and>
         map merchant_id df' = map merchant_id df \<and>
         map currency_code df' = map currency_code df \<and>
         map transaction_amount df' = map transaction_amount df \<and>
         (\<forall>score. res = Inr score \<longrightarrow>
            to_datetime parse (map transaction_timestamp df) = Inr (map transaction_timestamp df') \<and>
            to_datetime parse (map settlement_date df) = Inr (map settlement_date df') \<and>
            timeliness_score parse df' m = (Inr score, df'))"
proof (cases "to_datetime parse (map transaction_timestamp df)")
  case (Inl e)
  with assms show ?thesis
    by (auto simp: timeliness_score_reject_first)
next
  case t: (Inr tcol)
  have lt: "length tcol = length df"
    using to_datetime_length [OF t] by simp
  let ?df1 = "set_transaction_timestamp df tcol"
  have l1: "length ?df1 = length df"
    using lt by (rule set_tt_length)
  have f1: "map transaction_id ?df1 = map transaction_id df"
      "map customer_id ?df1 = map customer_id df"
      "map merchant_id ?df1 = map merchant_id df"
      "map currency_code ?df1 = map currency_code df"
      "map transaction_amount ?df1 = map transaction_amount df"
    using lt by (simp_all add: set_tt_other)
  show ?thesis
  proof (cases "to_datetime parse (map settlement_date df)")
    case (Inl e)
    with assms t have "res = Inl ValueError" "df' = ?df1"
      by (simp_all add: timeliness_score_reject_second)
    with l1 f1 show ?thesis
      by simp
  next
    case s: (Inr scol)
    have ls: "length scol = length ?df1"
      using to_datetime_length [OF s] l1 by simp
    let ?df2 = "set_settlement_date ?df1 scol"
    let ?run = "\<lambda>d. case subtract_columns scol tcol of
              Inl e \<Rightarrow> (Inl e, d)
            | Inr difference \<Rightarrow>
                (Inr (score_of (mean_bool (map (is_late m) (map days difference)))), d)"
    from assms have run: "?run ?df2 = (res, df')"
      by (simp add: timeliness_score_converted [OF t s])
    then have df': "df' = ?df2"
      by (auto split: sum.splits)
    have l2: "length ?df2 = length df"
      using ls l1 by (simp add: set_sd_length)
    have f2: "map transaction_id ?df2 = map transaction_id df"
      "map customer_id ?df2 = map customer_id df"
      "map merchant_id ?df2 = map merchant_id df"
      "map currency_code ?df2 = map currency_code df"
      "map transaction_amount ?df2 = map transaction_amount df"
      using ls f1 by (simp_all add: set_sd_other)
    have c2s: "map settlement_date ?df2 = scol"
      using ls by (rule set_sd_column)
    have c2t: "map transaction_timestamp ?df2 = tcol"
      using set_sd_other [OF ls, of transaction_timestamp] set_tt_column [OF lt] by simp
    have t2: "to_datetime parse (map transaction_timestamp ?df2) = Inr tcol"
      using to_datetime_fixed [OF t] by (simp add: c2t)
    have s2: "to_datetime parse (map settlement_date ?df2) = Inr scol"
      using to_datetime_fixed [OF s] by (simp add: c2s)
    have same: "set_settlement_date (set_transaction_timestamp ?df2 tcol) scol = ?df2"
      using set_tt_same [of ?df2] set_sd_same [of ?df2] by (simp add: c2t c2s)
    have "timeliness_score parse ?df2 m = ?run ?df2"
      by (simp only: timeliness_score_converted [OF t2 s2] same)
    with run have again: "timeliness_score parse ?df2 m = (res, ?df2)"
      by (simp add: df')
    from l2 f2 c2s c2t t s again show ?thesis
      unfolding df' by simp
  qed
qed

theorem timeliness_frame_witness:
  "timeliness_score sample_parse [sample_row] 7 =
     (Inr (Fin 100), [sample_row\<lparr>transaction_timestamp := Stamp 1704067200000000000,
                   settlement_date := Stamp 1704240000000000000\<rparr>]) \<and>
   timeliness_score sample_parse [sample_row\<lparr>transaction_timestamp := Stamp 1704067200000000000,
                   settlement_date := Stamp 1704240000000000000\<rparr>] 7 =
     (Inr (Fin 100), [sample_row\<lparr>transaction_timestamp := Stamp 1704067200000000000,
                   settlement_date := Stamp 1704240000000000000\<rparr>])"
proof -
  have run: "timeliness_score sample_parse [sample_row] 7 =
     (Inr (Fin 100), [sample_row\<lparr>transaction_timestamp := Stamp 1704067200000000000,
                   settlement_date := Stamp 1704240000000000000\<rparr>])"
    by (simp add: timeliness_score_def to_datetime_def sample_parse_def sample_row_def
      set_transaction_timestamp_def set_settlement_date_def in_int64_def
      subtract_columns_def tz_aware_column_def timedelta_def days_def
      is_late_def ns_per_day_def
      score_of_def mean_bool_def round2_def round_half_even_def)
  from timeliness_frame [OF run] run show ?thesis
    by simp
qed

end
